theory Spec2Isabelle
  imports Main
begin

section \<open>Values that reach the task API\<close>

text \<open>
  The task API of problem 5 receives untrusted JSON request bodies and query-string
  objects. A JSON value is modelled by its kind and content; an object is a finite map
  from keys to values, an absent key being \<open>None\<close> (JavaScript's \<open>undefined\<close>).
  A \<open>char\<close> stands for one code unit of a JavaScript string, so \<open>length\<close> is
  the \<open>.length\<close> of the source; the model covers code units below 256.
\<close>

datatype json =
    JNull
  | JBool bool
  | JNum int
  | JStr string
  | JArr "json list"
  | JObj "string \<Rightarrow> json option"

text \<open>
  A JavaScript number as the validators and handlers see it: \<open>parseInt\<close> yields an
  integer or \<open>NaN\<close>. Comparisons with \<open>NaN\<close> are false and sums with it are
  \<open>NaN\<close>. The rounding of integers above \<open>2^53\<close> is not modelled.
\<close>

datatype number = NaN | Num int

fun num_gt :: "number \<Rightarrow> int \<Rightarrow> bool" where
  "num_gt NaN k = False"
| "num_gt (Num n) k = (n > k)"

fun num_le :: "number \<Rightarrow> int \<Rightarrow> bool" where
  "num_le NaN k = False"
| "num_le (Num n) k = (n \<le> k)"

fun num_ge :: "number \<Rightarrow> int \<Rightarrow> bool" where
  "num_ge NaN k = False"
| "num_ge (Num n) k = (n \<ge> k)"

fun num_lt :: "number \<Rightarrow> number \<Rightarrow> bool" where
  "num_lt (Num a) (Num b) = (a < b)"
| "num_lt _ _ = False"

fun num_add :: "number \<Rightarrow> number \<Rightarrow> number" where
  "num_add (Num a) (Num b) = Num (a + b)"
| "num_add _ _ = NaN"

subsection \<open>\<open>parseInt(s, 10)\<close>\<close>

text \<open>
  ECMAScript's \<open>parseInt\<close> with radix 10: leading white space is skipped, one sign is
  read, then the longest run of decimal digits; whatever follows is ignored. With no
  digit the result is \<open>NaN\<close>.
\<close>

definition is_white_space :: "char \<Rightarrow> bool" where
  "is_white_space c = (of_char c \<in> {9, 10, 11, 12, 13, 32, 160 :: nat})"

definition is_digit :: "char \<Rightarrow> bool" where
  "is_digit c = (48 \<le> (of_char c :: nat) \<and> (of_char c :: nat) \<le> 57)"

definition digit_value :: "char \<Rightarrow> int" where
  "digit_value c = int (of_char c) - 48"

definition digits_value :: "string \<Rightarrow> int" where
  "digits_value ds = foldl (\<lambda>acc c. 10 * acc + digit_value c) 0 ds"

definition parseInt :: "string \<Rightarrow> number" where
  "parseInt inputString =
     (let S = dropWhile is_white_space inputString;
          sign = (if S \<noteq> [] \<and> hd S = CHR ''-'' then - 1 else 1 :: int);
          S' = (if S \<noteq> [] \<and> (hd S = CHR ''+'' \<or> hd S = CHR ''-'') then tl S else S);
          Z = takeWhile is_digit S'
      in if Z = [] then NaN else Num (sign * digits_value Z))"

section \<open>The validation library as the schemas use it\<close>

text \<open>
  The schemas of \<open>validators/task.validator.ts\<close> are built from zod combinators. A
  combinator parses the value found at a path and returns a status together with the
  issues it raised: \<open>Valid\<close>, \<open>Dirty\<close> (a value with issues; parsing went on) or
  \<open>Aborted\<close>. An object schema parses every key of its shape, so the issues of all
  fields are gathered in one pass.
\<close>

datatype path_segment = Key string | Index nat

record issue =
  path :: "path_segment list"
  message :: string

datatype 'a parse_return = Valid 'a | Dirty 'a | Aborted

type_synonym 'a schema = "path_segment list \<Rightarrow> json option \<Rightarrow> 'a parse_return \<times> issue list"

fun map_return :: "('a \<Rightarrow> 'b) \<Rightarrow> 'a parse_return \<Rightarrow> 'b parse_return" where
  "map_return f (Valid v) = Valid (f v)"
| "map_return f (Dirty v) = Dirty (f v)"
| "map_return f Aborted = Aborted"

text \<open>\<open>mergeObjectSync\<close>: one aborted field aborts the object, one dirty field makes it dirty.\<close>

fun merge_return :: "'a parse_return \<Rightarrow> 'b parse_return \<Rightarrow> ('a \<times> 'b) parse_return" where
  "merge_return Aborted _ = Aborted"
| "merge_return _ Aborted = Aborted"
| "merge_return (Valid a) (Valid b) = Valid (a, b)"
| "merge_return (Valid a) (Dirty b) = Dirty (a, b)"
| "merge_return (Dirty a) (Valid b) = Dirty (a, b)"
| "merge_return (Dirty a) (Dirty b) = Dirty (a, b)"

fun parsed_type :: "json option \<Rightarrow> string" where
  "parsed_type None = ''undefined''"
| "parsed_type (Some JNull) = ''null''"
| "parsed_type (Some (JBool b)) = ''boolean''"
| "parsed_type (Some (JNum n)) = ''number''"
| "parsed_type (Some (JStr s)) = ''string''"
| "parsed_type (Some (JArr xs)) = ''array''"
| "parsed_type (Some (JObj m)) = ''object''"

definition invalid_type :: "path_segment list \<Rightarrow> string \<Rightarrow> json option \<Rightarrow> issue" where
  "invalid_type p expected received =
     \<lparr>path = p,
      message = (if received = None then ''Required''
                 else ''Expected '' @ expected @ '', received '' @ parsed_type received)\<rparr>"

datatype string_check = Min nat string | Max nat string

fun run_check :: "path_segment list \<Rightarrow> string \<Rightarrow> string_check \<Rightarrow> issue list" where
  "run_check p s (Min n msg) = (if length s < n then [\<lparr>path = p, message = msg\<rparr>] else [])"
| "run_check p s (Max n msg) = (if length s > n then [\<lparr>path = p, message = msg\<rparr>] else [])"

text \<open>\<open>z.string()\<close> with its \<open>.min\<close> and \<open>.max\<close> checks, run in the order they were added.\<close>

fun z_string :: "string_check list \<Rightarrow> string schema" where
  "z_string checks p (Some (JStr s)) =
     (let issues = concat (map (run_check p s) checks)
      in (if issues = [] then Valid s else Dirty s, issues))"
| "z_string checks p received = (Aborted, [invalid_type p ''string'' received])"

text \<open>\<open>Array.prototype.join\<close> on strings.\<close>

fun join :: "string \<Rightarrow> string list \<Rightarrow> string" where
  "join sep [] = []"
| "join sep [x] = x"
| "join sep (x # y # r) = x @ sep @ join sep (y # r)"

definition join_values :: "string list \<Rightarrow> string" where
  "join_values vs = join '' | '' (map (\<lambda>v. [CHR 0x27] @ v @ [CHR 0x27]) vs)"

text \<open>\<open>z.enum\<close> over a table of the literals and the values they denote.\<close>

fun z_enum :: "(string \<times> 'a) list \<Rightarrow> 'a schema" where
  "z_enum options p (Some (JStr s)) =
     (case map_of options s of
        Some v \<Rightarrow> (Valid v, [])
      | None \<Rightarrow> (Aborted,
          [\<lparr>path = p,
            message = ''Invalid enum value. Expected '' @ join_values (map fst options)
                      @ '', received '' @ [CHR 0x27] @ s @ [CHR 0x27]\<rparr>]))"
| "z_enum options p received =
     (Aborted, [invalid_type p (join_values (map fst options)) received])"

definition z_optional :: "'a schema \<Rightarrow> 'a option schema" where
  "z_optional inner p received =
     (case received of
        None \<Rightarrow> (Valid None, [])
      | Some v \<Rightarrow> (case inner p received of (r, issues) \<Rightarrow> (map_return Some r, issues)))"

definition z_default :: "json \<Rightarrow> 'a schema \<Rightarrow> 'a schema" where
  "z_default defaultValue inner p received =
     inner p (case received of None \<Rightarrow> Some defaultValue | Some v \<Rightarrow> received)"

definition z_transform :: "('a \<Rightarrow> 'b) \<Rightarrow> 'a schema \<Rightarrow> 'b schema" where
  "z_transform f inner p received =
     (case inner p received of
        (Valid v, issues) \<Rightarrow> (Valid (f v), issues)
      | (_, issues) \<Rightarrow> (Aborted, issues))"

definition z_refine :: "('a \<Rightarrow> bool) \<Rightarrow> string \<Rightarrow> 'a schema \<Rightarrow> 'a schema" where
  "z_refine check msg inner p received =
     (case inner p received of
        (Aborted, issues) \<Rightarrow> (Aborted, issues)
      | (Valid v, issues) \<Rightarrow>
          if check v then (Valid v, issues)
          else (Dirty v, issues @ [\<lparr>path = p, message = msg\<rparr>])
      | (Dirty v, issues) \<Rightarrow>
          if check v then (Dirty v, issues)
          else (Dirty v, issues @ [\<lparr>path = p, message = msg\<rparr>]))"

text \<open>One key of an object shape: the field schema applied at the extended path.\<close>

definition field :: "'a schema \<Rightarrow> path_segment list \<Rightarrow> (string \<Rightarrow> json option) \<Rightarrow> string
    \<Rightarrow> 'a parse_return \<times> issue list" where
  "field s p obj k = s (p @ [Key k]) (obj k)"

text \<open>Failures of the service: what a handler can catch and pass to \<open>next\<close>.\<close>

datatype error =
    ZodError "issue list"
  | PrismaClientKnownRequestError string string
  | Error string

text \<open>\<open>schema.parse(x)\<close>: the value when parsing was valid, a thrown \<open>ZodError\<close> otherwise.\<close>

definition parse :: "'a schema \<Rightarrow> json \<Rightarrow> error + 'a" where
  "parse s x = (case s [] (Some x) of (Valid v, issues) \<Rightarrow> Inr v | (_, issues) \<Rightarrow> Inl (ZodError issues))"

section \<open>\<open>validators/task.validator.ts\<close>\<close>

datatype TaskStatus = pending | in_progress | completed

definition TaskStatus_options :: "(string \<times> TaskStatus) list" where
  "TaskStatus_options = [(''pending'', pending), (''in_progress'', in_progress), (''completed'', completed)]"

record CreateTaskInput =
  create_title :: string
  create_description :: "string option"
  create_status :: "TaskStatus option"

record UpdateTaskInput =
  update_title :: "string option"
  update_description :: "string option"
  update_status :: "TaskStatus option"

record ListTasksQuery =
  query_status :: "TaskStatus option"
  query_search :: "string option"
  query_limit :: "number option"
  query_offset :: "number option"

definition createTaskSchema :: "CreateTaskInput schema" where
  "createTaskSchema p received =
     (case received of
        Some (JObj obj) \<Rightarrow>
          (let (t, ti) = field (z_string [Min 1 ''Title is required'', Max 200 ''Title too long'']) p obj ''title'';
               (d, di) = field (z_optional (z_string [])) p obj ''description'';
               (s, si) = field (z_default (JStr ''pending'') (z_optional (z_enum TaskStatus_options))) p obj ''status''
           in (map_return
                 (\<lambda>(t, d, s). \<lparr>create_title = t, create_description = d, create_status = s\<rparr>)
                 (merge_return t (merge_return d s)),
               ti @ di @ si))
      | _ \<Rightarrow> (Aborted, [invalid_type p ''object'' received]))"

text \<open>
  \<open>Object.keys(data)\<close> on the parsed update object: a key of the shape is in the output
  exactly when its value is defined.
\<close>

definition update_keys :: "UpdateTaskInput \<Rightarrow> string list" where
  "update_keys d =
     (if update_title d \<noteq> None then [''title''] else [])
     @ (if update_description d \<noteq> None then [''description''] else [])
     @ (if update_status d \<noteq> None then [''status''] else [])"

definition updateTaskObject :: "UpdateTaskInput schema" where
  "updateTaskObject p received =
     (case received of
        Some (JObj obj) \<Rightarrow>
          (let (t, ti) = field (z_optional (z_string [Min 1 ''Title cannot be empty'', Max 200 ''Title too long''])) p obj ''title'';
               (d, di) = field (z_optional (z_string [])) p obj ''description'';
               (s, si) = field (z_optional (z_enum TaskStatus_options)) p obj ''status''
           in (map_return
                 (\<lambda>(t, d, s). \<lparr>update_title = t, update_description = d, update_status = s\<rparr>)
                 (merge_return t (merge_return d s)),
               ti @ di @ si))
      | _ \<Rightarrow> (Aborted, [invalid_type p ''object'' received]))"

definition updateTaskSchema :: "UpdateTaskInput schema" where
  "updateTaskSchema =
     z_refine (\<lambda>data. length (update_keys data) > 0)
       ''At least one field must be provided for update'' updateTaskObject"

text \<open>
  The transforms of \<open>limit\<close> and \<open>offset\<close> test their argument for truthiness:
  an absent value and the empty string both take the default.
\<close>

definition limit_schema :: "number schema" where
  "limit_schema =
     z_refine (\<lambda>val. num_gt val 0 \<and> num_le val 100) ''Limit must be between 1 and 100''
       (z_transform (\<lambda>val. case val of Some s \<Rightarrow> if s \<noteq> [] then parseInt s else Num 10 | None \<Rightarrow> Num 10)
          (z_optional (z_string [])))"

definition offset_schema :: "number schema" where
  "offset_schema =
     z_refine (\<lambda>val. num_ge val 0) ''Offset must be non-negative''
       (z_transform (\<lambda>val. case val of Some s \<Rightarrow> if s \<noteq> [] then parseInt s else Num 0 | None \<Rightarrow> Num 0)
          (z_optional (z_string [])))"

definition listTasksQuerySchema :: "ListTasksQuery schema" where
  "listTasksQuerySchema p received =
     (case received of
        Some (JObj obj) \<Rightarrow>
          (let (s, si) = field (z_optional (z_enum TaskStatus_options)) p obj ''status'';
               (q, qi) = field (z_optional (z_string [])) p obj ''search'';
               (l, li) = field limit_schema p obj ''limit'';
               (f, fi) = field offset_schema p obj ''offset''
           in (map_return
                 (\<lambda>(s, q, l, f). \<lparr>query_status = s, query_search = q,
                                    query_limit = Some l, query_offset = Some f\<rparr>)
                 (merge_return s (merge_return q (merge_return l f))),
               si @ qi @ li @ fi))
      | _ \<Rightarrow> (Aborted, [invalid_type p ''object'' received]))"

section \<open>The persistence collaborator\<close>

text \<open>
  The service reaches its store through the Prisma client of \<open>config/database.ts\<close>.
  The client is modelled on one table of tasks, as the repository's service
  specification and tests describe it: ids come from an auto-increment sequence,
  \<open>createdAt\<close> and \<open>updatedAt\<close> are read from the store's clock, \<open>findUnique\<close>
  answers a miss with \<open>null\<close>, \<open>update\<close> and \<open>delete\<close> answer it with the known
  request error \<open>P2025\<close>. The two reads of \<open>listTasks\<close> see the same state:
  interleaving with other requests is not modelled.
\<close>

record Task =
  task_id :: int
  task_title :: string
  task_description :: "string option"
  task_status :: TaskStatus
  task_createdAt :: nat
  task_updatedAt :: nat

record database =
  tasks :: "Task list"
  next_id :: int
  now :: nat

text \<open>
  The \<open>contains\<close> filter: the term occurs in the value as a contiguous run of code
  units, compared as they are. (Case folding by a database collation is outside
  this model.) A \<open>null\<close> column matches no \<open>contains\<close> filter.
\<close>

fun starts_with :: "string \<Rightarrow> string \<Rightarrow> bool" where
  "starts_with s [] = True"
| "starts_with [] (c # cs) = False"
| "starts_with (x # xs) (c # cs) = (x = c \<and> starts_with xs cs)"

fun contains :: "string \<Rightarrow> string \<Rightarrow> bool" where
  "contains [] term = (term = [])"
| "contains (x # xs) term = (starts_with (x # xs) term \<or> contains xs term)"

datatype or_condition = title_contains string | description_contains string

record TaskWhereInput =
  where_status :: "TaskStatus option"
  where_OR :: "or_condition list option"

fun condition_holds :: "Task \<Rightarrow> or_condition \<Rightarrow> bool" where
  "condition_holds t (title_contains term) = contains (task_title t) term"
| "condition_holds t (description_contains term) =
     (case task_description t of None \<Rightarrow> False | Some d \<Rightarrow> contains d term)"

definition matches :: "TaskWhereInput \<Rightarrow> Task \<Rightarrow> bool" where
  "matches w t =
     ((case where_status w of None \<Rightarrow> True | Some s \<Rightarrow> task_status t = s)
      \<and> (case where_OR w of None \<Rightarrow> True | Some cs \<Rightarrow> list_ex (condition_holds t) cs))"

definition order_by_createdAt_desc :: "Task list \<Rightarrow> Task list" where
  "order_by_createdAt_desc ts = sort_key (\<lambda>t. - int (task_createdAt t)) ts"

text \<open>
  \<open>findMany\<close> with \<open>where\<close>, \<open>take\<close>, \<open>skip\<close> and \<open>orderBy: { createdAt: 'desc' }\<close>.
  The window is a pair of non-negative integers for every validated query; any other
  window is answered with an error in this model.
\<close>

definition prisma_task_findMany :: "database \<Rightarrow> TaskWhereInput \<Rightarrow> number \<Rightarrow> number \<Rightarrow> error + Task list" where
  "prisma_task_findMany db w take_arg skip_arg =
     (case (take_arg, skip_arg) of
        (Num t, Num s) \<Rightarrow>
          if 0 \<le> t \<and> 0 \<le> s
          then Inr (take (nat t) (drop (nat s) (order_by_createdAt_desc (filter (matches w) (tasks db)))))
          else Inl (Error ''Invalid pagination arguments'')
      | _ \<Rightarrow> Inl (Error ''Invalid pagination arguments''))"

definition prisma_task_count :: "database \<Rightarrow> TaskWhereInput \<Rightarrow> error + nat" where
  "prisma_task_count db w = Inr (length (filter (matches w) (tasks db)))"

definition prisma_task_findUnique :: "database \<Rightarrow> int \<Rightarrow> error + Task option" where
  "prisma_task_findUnique db i = Inr (find (\<lambda>t. task_id t = i) (tasks db))"

definition prisma_task_create :: "database \<Rightarrow> CreateTaskInput \<Rightarrow> error + Task \<times> database" where
  "prisma_task_create db data =
     (let t = \<lparr>task_id = next_id db,
               task_title = create_title data,
               task_description = create_description data,
               task_status = (case create_status data of None \<Rightarrow> pending | Some s \<Rightarrow> s),
               task_createdAt = now db,
               task_updatedAt = now db\<rparr>
      in Inr (t, db\<lparr>tasks := tasks db @ [t], next_id := next_id db + 1, now := now db + 1\<rparr>))"

definition apply_update :: "UpdateTaskInput \<Rightarrow> nat \<Rightarrow> Task \<Rightarrow> Task" where
  "apply_update data time t =
     t\<lparr>task_title := (case update_title data of None \<Rightarrow> task_title t | Some v \<Rightarrow> v),
       task_description := (case update_description data of None \<Rightarrow> task_description t | Some v \<Rightarrow> Some v),
       task_status := (case update_status data of None \<Rightarrow> task_status t | Some v \<Rightarrow> v),
       task_updatedAt := time\<rparr>"

definition prisma_task_update :: "database \<Rightarrow> int \<Rightarrow> UpdateTaskInput \<Rightarrow> error + Task \<times> database" where
  "prisma_task_update db i data =
     (case find (\<lambda>t. task_id t = i) (tasks db) of
        None \<Rightarrow> Inl (PrismaClientKnownRequestError ''P2025'' ''Record to update not found.'')
      | Some t \<Rightarrow>
          Inr (apply_update data (now db) t,
               db\<lparr>tasks := map (\<lambda>x. if task_id x = i then apply_update data (now db) x else x) (tasks db),
                  now := now db + 1\<rparr>))"

definition prisma_task_delete :: "database \<Rightarrow> int \<Rightarrow> error + Task \<times> database" where
  "prisma_task_delete db i =
     (case find (\<lambda>t. task_id t = i) (tasks db) of
        None \<Rightarrow> Inl (PrismaClientKnownRequestError ''P2025'' ''Record to delete does not exist.'')
      | Some t \<Rightarrow> Inr (t, db\<lparr>tasks := filter (\<lambda>x. task_id x \<noteq> i) (tasks db)\<rparr>))"

section \<open>\<open>services/task.service.ts\<close>\<close>

record Pagination =
  page_total :: number
  page_limit :: number
  page_offset :: number
  page_hasMore :: bool

record ListResult =
  result_data :: "Task list"
  result_pagination :: Pagination

definition createTask :: "CreateTaskInput \<Rightarrow> database \<Rightarrow> error + Task \<times> database" where
  "createTask data db = prisma_task_create db data"

text \<open>
  The \<open>where\<close> object that \<open>listTasks\<close> builds from the query. Both tests are
  truthiness tests: every status literal is a non-empty string and so passes when
  defined; an empty search term adds no condition.
\<close>

definition build_where :: "ListTasksQuery \<Rightarrow> TaskWhereInput" where
  "build_where query =
     (let status = query_status query;
          search = query_search query;
          w = \<lparr>where_status = None, where_OR = None\<rparr>;
          w = (if status \<noteq> None then w\<lparr>where_status := status\<rparr> else w);
          w = (case search of
                 Some term \<Rightarrow>
                   if term \<noteq> []
                   then w\<lparr>where_OR := Some [title_contains term, description_contains term]\<rparr>
                   else w
               | None \<Rightarrow> w)
      in w)"

definition listTasks :: "ListTasksQuery \<Rightarrow> database \<Rightarrow> error + ListResult" where
  "listTasks query db =
     (let limit = (case query_limit query of None \<Rightarrow> Num 10 | Some l \<Rightarrow> l);
          offset = (case query_offset query of None \<Rightarrow> Num 0 | Some f \<Rightarrow> f);
          w = build_where query
      in case prisma_task_findMany db w limit offset of
           Inl e \<Rightarrow> Inl e
         | Inr found \<Rightarrow>
             (case prisma_task_count db w of
                Inl e \<Rightarrow> Inl e
              | Inr matching \<Rightarrow>
                  Inr \<lparr>result_data = found,
                       result_pagination =
                         \<lparr>page_total = Num (int matching),
                          page_limit = limit,
                          page_offset = offset,
                          page_hasMore = num_lt (num_add offset limit) (Num (int matching))\<rparr>\<rparr>))"

definition getTaskById :: "int \<Rightarrow> database \<Rightarrow> error + Task option" where
  "getTaskById i db = prisma_task_findUnique db i"

definition updateTask :: "int \<Rightarrow> UpdateTaskInput \<Rightarrow> database \<Rightarrow> error + Task \<times> database" where
  "updateTask i data db = prisma_task_update db i data"

definition deleteTask :: "int \<Rightarrow> database \<Rightarrow> error + Task \<times> database" where
  "deleteTask i db = prisma_task_delete db i"

section \<open>\<open>middleware/errorHandler.ts\<close>\<close>

record detail =
  detail_field :: string
  detail_message :: string

datatype payload = one_task Task | task_list "Task list"

text \<open>
  A response body. A key whose value is \<open>undefined\<close> is left out by \<open>res.json\<close>,
  which is \<open>None\<close> here.
\<close>

record Body =
  body_success :: bool
  body_error :: "string option"
  body_message :: "string option"
  body_details :: "detail list option"
  body_data :: "payload option"
  body_pagination :: "Pagination option"

record Response =
  res_status :: nat
  res_json :: Body

definition failure :: "string \<Rightarrow> Body" where
  "failure text =
     \<lparr>body_success = False, body_error = Some text, body_message = None,
      body_details = None, body_data = None, body_pagination = None\<rparr>"

definition success :: Body where
  "success =
     \<lparr>body_success = True, body_error = None, body_message = None,
      body_details = None, body_data = None, body_pagination = None\<rparr>"

fun digits_of :: "nat \<Rightarrow> string" where
  "digits_of n =
     (if n < 10 then [''0123456789'' ! n]
      else digits_of (n div 10) @ [''0123456789'' ! (n mod 10)])"

fun segment_text :: "path_segment \<Rightarrow> string" where
  "segment_text (Key k) = k"
| "segment_text (Index n) = digits_of n"

text \<open>
  \<open>errorHandler(error, req, res, next)\<close>; \<open>node_env\<close> is \<open>process.env.NODE_ENV\<close>
  and the text carried by a Prisma error or a plain \<open>Error\<close> is its \<open>message\<close>.
\<close>

definition default_response :: "string option \<Rightarrow> string \<Rightarrow> Response" where
  "default_response node_env error_message =
     \<lparr>res_status = 500,
      res_json = (failure ''Internal server error'')
        \<lparr>body_message := (if node_env = Some ''development'' then Some error_message else None)\<rparr>\<rparr>"

definition errorHandler :: "string option \<Rightarrow> error \<Rightarrow> Response" where
  "errorHandler node_env e =
     (case e of
        ZodError issues \<Rightarrow>
          \<lparr>res_status = 400,
           res_json = (failure ''Validation error'')
             \<lparr>body_details := Some (map (\<lambda>err. \<lparr>detail_field = join ''.'' (map segment_text (path err)),
                                                 detail_message = message err\<rparr>) issues)\<rparr>\<rparr>
      | PrismaClientKnownRequestError code text \<Rightarrow>
          if code = ''P2025''
          then \<lparr>res_status = 404, res_json = failure ''Resource not found''\<rparr>
          else if code = ''P2002''
          then \<lparr>res_status = 409, res_json = failure ''Resource already exists''\<rparr>
          else default_response node_env text
      | Error text \<Rightarrow> default_response node_env text)"

section \<open>\<open>controllers/task.controller.ts\<close>\<close>

text \<open>
  A handler either sends a response or hands an error to \<open>next\<close>. The controller's
  module holds one \<open>TaskService\<close> instance; the handlers take it as their first
  argument, so that a statement about a handler can range over every service, as
  the controller's tests do with a mock.
\<close>

datatype outcome = Sent Response | Next error

record TaskService =
  service_createTask :: "CreateTaskInput \<Rightarrow> database \<Rightarrow> error + Task \<times> database"
  service_listTasks :: "ListTasksQuery \<Rightarrow> database \<Rightarrow> error + ListResult"
  service_getTaskById :: "int \<Rightarrow> database \<Rightarrow> error + Task option"
  service_updateTask :: "int \<Rightarrow> UpdateTaskInput \<Rightarrow> database \<Rightarrow> error + Task \<times> database"
  service_deleteTask :: "int \<Rightarrow> database \<Rightarrow> error + Task \<times> database"

definition taskService :: TaskService where
  "taskService =
     \<lparr>service_createTask = createTask,
      service_listTasks = listTasks,
      service_getTaskById = getTaskById,
      service_updateTask = updateTask,
      service_deleteTask = deleteTask\<rparr>"

definition invalid_task_id :: Response where
  "invalid_task_id = \<lparr>res_status = 400, res_json = failure ''Invalid task ID''\<rparr>"

definition controller_create :: "TaskService \<Rightarrow> json \<Rightarrow> database \<Rightarrow> outcome \<times> database" where
  "controller_create service body db =
     (case parse createTaskSchema body of
        Inl e \<Rightarrow> (Next e, db)
      | Inr validatedData \<Rightarrow>
          (case service_createTask service validatedData db of
             Inl e \<Rightarrow> (Next e, db)
           | Inr (task, db') \<Rightarrow>
               (Sent \<lparr>res_status = 201, res_json = success\<lparr>body_data := Some (one_task task)\<rparr>\<rparr>, db')))"

definition controller_list :: "TaskService \<Rightarrow> json \<Rightarrow> database \<Rightarrow> outcome \<times> database" where
  "controller_list service query db =
     (case parse listTasksQuerySchema query of
        Inl e \<Rightarrow> (Next e, db)
      | Inr validatedQuery \<Rightarrow>
          (case service_listTasks service validatedQuery db of
             Inl e \<Rightarrow> (Next e, db)
           | Inr result \<Rightarrow>
               (Sent \<lparr>res_status = 200,
                      res_json = success\<lparr>body_data := Some (task_list (result_data result)),
                                         body_pagination := Some (result_pagination result)\<rparr>\<rparr>, db)))"

definition controller_getById :: "TaskService \<Rightarrow> string \<Rightarrow> database \<Rightarrow> outcome \<times> database" where
  "controller_getById service params_id db =
     (case parseInt params_id of
        NaN \<Rightarrow> (Sent invalid_task_id, db)
      | Num i \<Rightarrow>
          (case service_getTaskById service i db of
             Inl e \<Rightarrow> (Next e, db)
           | Inr None \<Rightarrow> (Sent \<lparr>res_status = 404, res_json = failure ''Task not found''\<rparr>, db)
           | Inr (Some task) \<Rightarrow>
               (Sent \<lparr>res_status = 200, res_json = success\<lparr>body_data := Some (one_task task)\<rparr>\<rparr>, db)))"

definition controller_update :: "TaskService \<Rightarrow> string \<Rightarrow> json \<Rightarrow> database \<Rightarrow> outcome \<times> database" where
  "controller_update service params_id body db =
     (case parseInt params_id of
        NaN \<Rightarrow> (Sent invalid_task_id, db)
      | Num i \<Rightarrow>
          (case parse updateTaskSchema body of
             Inl e \<Rightarrow> (Next e, db)
           | Inr validatedData \<Rightarrow>
               (case service_updateTask service i validatedData db of
                  Inl e \<Rightarrow> (Next e, db)
                | Inr (task, db') \<Rightarrow>
                    (Sent \<lparr>res_status = 200, res_json = success\<lparr>body_data := Some (one_task task)\<rparr>\<rparr>, db'))))"

definition controller_delete :: "TaskService \<Rightarrow> string \<Rightarrow> database \<Rightarrow> outcome \<times> database" where
  "controller_delete service params_id db =
     (case parseInt params_id of
        NaN \<Rightarrow> (Sent invalid_task_id, db)
      | Num i \<Rightarrow>
          (case service_deleteTask service i db of
             Inl e \<Rightarrow> (Next e, db)
           | Inr (task, db') \<Rightarrow>
               (Sent \<lparr>res_status = 200,
                      res_json = success\<lparr>body_message := Some ''Task deleted successfully''\<rparr>\<rparr>, db')))"

text \<open>\<open>index.ts\<close> mounts \<open>errorHandler\<close> last: an error handed to \<open>next\<close> is answered by it.\<close>

definition respond :: "string option \<Rightarrow> outcome \<Rightarrow> Response" where
  "respond node_env out = (case out of Sent r \<Rightarrow> r | Next e \<Rightarrow> errorHandler node_env e)"

section \<open>The stores the service can reach\<close>

text \<open>
  A store is reached from the empty one by the mutations of the service and by the
  passing of time.
\<close>

inductive reachable :: "database \<Rightarrow> bool" where
  empty: "reachable \<lparr>tasks = [], next_id = 1, now = time\<rparr>"
| created: "reachable db \<Longrightarrow> createTask input db = Inr (t, db') \<Longrightarrow> reachable db'"
| updated: "reachable db \<Longrightarrow> updateTask i data db = Inr (t, db') \<Longrightarrow> reachable db'"
| deleted: "reachable db \<Longrightarrow> deleteTask i db = Inr (t, db') \<Longrightarrow> reachable db'"
| later: "reachable db \<Longrightarrow> reachable (db\<lparr>now := now db + elapsed\<rparr>)"

section \<open>A store used in the examples\<close>

definition example_store :: database where
  "example_store =
     \<lparr>tasks =
        [\<lparr>task_id = 1, task_title = ''Write tests'', task_description = None,
          task_status = pending, task_createdAt = 10, task_updatedAt = 10\<rparr>,
         \<lparr>task_id = 2, task_title = ''Review'', task_description = Some ''tests of the API'',
          task_status = completed, task_createdAt = 20, task_updatedAt = 25\<rparr>,
         \<lparr>task_id = 12, task_title = ''Deploy'', task_description = None,
          task_status = pending, task_createdAt = 30, task_updatedAt = 30\<rparr>],
      next_id = 13,
      now = 40\<rparr>"

section \<open>The error translator\<close>

text \<open>
  C6. \<open>errorHandler\<close> answers every error, in this order: a \<open>ZodError\<close> with 400,
  the text ``Validation error'' and one detail per issue whose field is the path joined
  with dots; a known Prisma request error with code \<open>P2025\<close> with 404 and ``Resource not
  found''; one with code \<open>P2002\<close> with 409 and ``Resource already exists''; every other
  error with 500 and ``Internal server error'', the error's message being in the body
  only when \<open>NODE_ENV\<close> is \<open>development\<close>. Every answer has \<open>success: false\<close>.
\<close>

theorem errorHandler_dispatch:
  "errorHandler node_env (ZodError issues) =
     \<lparr>res_status = 400,
      res_json = \<lparr>body_success = False, body_error = Some ''Validation error'',
                  body_message = None,
                  body_details = Some (map (\<lambda>err. \<lparr>detail_field = join ''.'' (map segment_text (path err)),
                                                     detail_message = message err\<rparr>) issues),
                  body_data = None, body_pagination = None\<rparr>\<rparr>
   \<and> errorHandler node_env (PrismaClientKnownRequestError ''P2025'' text) =
     \<lparr>res_status = 404,
      res_json = \<lparr>body_success = False, body_error = Some ''Resource not found'',
                  body_message = None, body_details = None, body_data = None,
                  body_pagination = None\<rparr>\<rparr>
   \<and> errorHandler node_env (PrismaClientKnownRequestError ''P2002'' text) =
     \<lparr>res_status = 409,
      res_json = \<lparr>body_success = False, body_error = Some ''Resource already exists'',
                  body_message = None, body_details = None, body_data = None,
                  body_pagination = None\<rparr>\<rparr>
   \<and> ((\<forall>issues. e \<noteq> ZodError issues)
        \<and> (\<forall>text. e \<noteq> PrismaClientKnownRequestError ''P2025'' text)
        \<and> (\<forall>text. e \<noteq> PrismaClientKnownRequestError ''P2002'' text) \<longrightarrow>
      (\<exists>text. (e = Error text \<or> (\<exists>code. e = PrismaClientKnownRequestError code text)) \<and>
         errorHandler node_env e =
           \<lparr>res_status = 500,
            res_json = \<lparr>body_success = False, body_error = Some ''Internal server error'',
                        body_message = (if node_env = Some ''development'' then Some text else None),
                        body_details = None, body_data = None, body_pagination = None\<rparr>\<rparr>))
   \<and> body_success (res_json (errorHandler node_env e)) = False
   \<and> res_status (errorHandler node_env e) \<in> {400, 404, 409, 500}"
  by (cases e) (simp_all add: errorHandler_def default_response_def failure_def)

theorem errorHandler_dispatch_witness:
  "errorHandler (Some ''development'') (Error ''boom'') =
     \<lparr>res_status = 500,
      res_json = \<lparr>body_success = False, body_error = Some ''Internal server error'',
                  body_message = Some ''boom'',
                  body_details = None, body_data = None, body_pagination = None\<rparr>\<rparr>
   \<and> body_details (res_json (errorHandler (Some ''development'')
         (ZodError [\<lparr>path = [Key ''items'', Index 10, Key ''title''], message = ''Required''\<rparr>,
                    \<lparr>path = [], message = ''At least one field must be provided for update''\<rparr>]))) =
       Some [\<lparr>detail_field = ''items.10.title'', detail_message = ''Required''\<rparr>,
             \<lparr>detail_field = [], detail_message = ''At least one field must be provided for update''\<rparr>]"
  using errorHandler_dispatch
    [of "Some ''development''"
        "[\<lparr>path = [Key ''items'', Index 10, Key ''title''], message = ''Required''\<rparr>,
          \<lparr>path = [], message = ''At least one field must be provided for update''\<rparr>]"
        "''x''" "Error ''boom''"]
  by simp

section \<open>The validation layer\<close>

subsection \<open>What each field schema returns\<close>

lemma optional_string_field:
  "field (z_optional (z_string [])) p obj k =
     (case obj k of
        None \<Rightarrow> (Valid None, [])
      | Some (JStr s) \<Rightarrow> (Valid (Some s), [])
      | received \<Rightarrow> (Aborted, [invalid_type (p @ [Key k]) ''string'' received]))"
  by (auto simp: field_def z_optional_def split: option.splits json.splits)

lemma map_of_TaskStatus_options:
  "map_of TaskStatus_options s =
     (if s = ''pending'' then Some pending
      else if s = ''in_progress'' then Some in_progress
      else if s = ''completed'' then Some completed else None)"
  by (simp add: TaskStatus_options_def)

lemma optional_status_field:
  "field (z_optional (z_enum TaskStatus_options)) p obj k =
     (case obj k of
        None \<Rightarrow> (Valid None, [])
      | Some (JStr s) \<Rightarrow>
          (case map_of TaskStatus_options s of
             Some v \<Rightarrow> (Valid (Some v), [])
           | None \<Rightarrow> (Aborted, snd (z_enum TaskStatus_options (p @ [Key k]) (obj k))))
      | received \<Rightarrow> (Aborted, snd (z_enum TaskStatus_options (p @ [Key k]) (obj k))))"
  by (auto simp: field_def z_optional_def split: option.splits json.splits)

lemma default_status_field:
  "field (z_default (JStr ''pending'') (z_optional (z_enum TaskStatus_options))) p obj k =
     (case obj k of
        None \<Rightarrow> (Valid (Some pending), [])
      | _ \<Rightarrow> field (z_optional (z_enum TaskStatus_options)) p obj k)"
  by (auto simp: field_def z_optional_def z_default_def TaskStatus_options_def split: option.splits json.splits)

subsection \<open>The creation payload\<close>

lemma createTaskSchema_object:
  "createTaskSchema p (Some (JObj obj)) =
     (map_return
        (\<lambda>(t, d, s). \<lparr>create_title = t, create_description = d, create_status = s\<rparr>)
        (merge_return
           (fst (field (z_string [Min 1 ''Title is required'', Max 200 ''Title too long'']) p obj ''title''))
           (merge_return
              (fst (field (z_optional (z_string [])) p obj ''description''))
              (fst (field (z_default (JStr ''pending'') (z_optional (z_enum TaskStatus_options))) p obj ''status'')))),
      snd (field (z_string [Min 1 ''Title is required'', Max 200 ''Title too long'']) p obj ''title'')
      @ snd (field (z_optional (z_string [])) p obj ''description'')
      @ snd (field (z_default (JStr ''pending'') (z_optional (z_enum TaskStatus_options))) p obj ''status''))"
  by (simp add: createTaskSchema_def case_prod_beta del: One_nat_def)

lemma parse_createTaskSchema_success:
  "parse createTaskSchema (JObj obj) = Inr r \<longleftrightarrow>
     fst (field (z_string [Min 1 ''Title is required'', Max 200 ''Title too long'']) [] obj ''title'') = Valid (create_title r)
     \<and> fst (field (z_optional (z_string [])) [] obj ''description'') = Valid (create_description r)
     \<and> fst (field (z_default (JStr ''pending'') (z_optional (z_enum TaskStatus_options))) [] obj ''status'') = Valid (create_status r)"
  (is "_ \<longleftrightarrow> ?t = _ \<and> ?d = _ \<and> ?s = _")
  unfolding parse_def createTaskSchema_object
  by (cases ?t; cases ?d; cases ?s; cases r) (auto simp del: One_nat_def)

lemma parse_createTaskSchema_failure:
  "parse createTaskSchema (JObj obj) = Inl e \<Longrightarrow>
     e = ZodError
       (snd (field (z_string [Min 1 ''Title is required'', Max 200 ''Title too long'']) [] obj ''title'')
        @ snd (field (z_optional (z_string [])) [] obj ''description'')
        @ snd (field (z_default (JStr ''pending'') (z_optional (z_enum TaskStatus_options))) [] obj ''status''))"
  unfolding parse_def createTaskSchema_object
  by (auto simp del: One_nat_def split: parse_return.splits)


lemma title_field_valid:
  "fst (field (z_string [Min 1 a, Max 200 b]) p obj k) = Valid t \<longleftrightarrow>
     obj k = Some (JStr t) \<and> 1 \<le> length t \<and> length t \<le> 200"
proof (cases "obj k")
  case None
  then show ?thesis by (simp add: field_def)
next
  case (Some v)
  then show ?thesis by (cases v) (auto simp: field_def Suc_le_eq)
qed

lemma title_field_issue:
  "\<not> (\<exists>t. obj k = Some (JStr t) \<and> 1 \<le> length t \<and> length t \<le> 200) \<Longrightarrow>
     \<exists>i \<in> set (snd (field (z_string [Min 1 a, Max 200 b]) p obj k)). path i = p @ [Key k]"
proof (cases "obj k")
  case None
  then show ?thesis by (simp add: field_def invalid_type_def)
next
  case (Some v)
  assume "\<not> (\<exists>t. obj k = Some (JStr t) \<and> 1 \<le> length t \<and> length t \<le> 200)"
  with Some show ?thesis by (cases v) (auto simp: field_def invalid_type_def Suc_le_eq)
qed

lemma optional_string_field_valid:
  "fst (field (z_optional (z_string [])) p obj k) = Valid d \<longleftrightarrow> obj k = map_option JStr d"
  by (cases d) (auto simp: optional_string_field split: option.splits json.splits)

lemma optional_string_field_issue:
  "\<not> (obj k = None \<or> (\<exists>d. obj k = Some (JStr d))) \<Longrightarrow>
     \<exists>i \<in> set (snd (field (z_optional (z_string [])) p obj k)). path i = p @ [Key k]"
  by (auto simp: optional_string_field invalid_type_def split: option.splits json.splits)

lemma optional_status_field_valid:
  "fst (field (z_optional (z_enum TaskStatus_options)) p obj k) = Valid st \<longleftrightarrow>
     (obj k = None \<and> st = None)
     \<or> (\<exists>s v. obj k = Some (JStr s) \<and> map_of TaskStatus_options s = Some v \<and> st = Some v)"
  by (auto simp: optional_status_field split: option.splits json.splits)

lemma optional_status_field_issue:
  "\<not> (obj k = None \<or> (\<exists>s. obj k = Some (JStr s) \<and> s \<in> {''pending'', ''in_progress'', ''completed''})) \<Longrightarrow>
     \<exists>i \<in> set (snd (field (z_optional (z_enum TaskStatus_options)) p obj k)). path i = p @ [Key k]"
proof (cases "obj k")
  case None
  assume "\<not> (obj k = None \<or> (\<exists>s. obj k = Some (JStr s) \<and> s \<in> {''pending'', ''in_progress'', ''completed''}))"
  with None show ?thesis by simp
next
  case (Some v)
  assume "\<not> (obj k = None \<or> (\<exists>s. obj k = Some (JStr s) \<and> s \<in> {''pending'', ''in_progress'', ''completed''}))"
  with Some show ?thesis
    by (cases v) (auto simp: field_def z_optional_def invalid_type_def map_of_TaskStatus_options)
qed

lemma default_status_field_valid:
  "fst (field (z_default (JStr ''pending'') (z_optional (z_enum TaskStatus_options))) p obj k) = Valid st \<longleftrightarrow>
     (obj k = None \<and> st = Some pending)
     \<or> (\<exists>s v. obj k = Some (JStr s) \<and> map_of TaskStatus_options s = Some v \<and> st = Some v)"
  by (cases "obj k") (auto simp: default_status_field optional_status_field_valid)

lemma default_status_field_issue:
  "\<not> (obj k = None \<or> (\<exists>s. obj k = Some (JStr s) \<and> s \<in> {''pending'', ''in_progress'', ''completed''})) \<Longrightarrow>
     \<exists>i \<in> set (snd (field (z_default (JStr ''pending'') (z_optional (z_enum TaskStatus_options))) p obj k)).
        path i = p @ [Key k]"
  using optional_status_field_issue [of obj k p]
  by (cases "obj k") (auto simp: default_status_field)

lemma status_literal:
  "(\<exists>v. map_of TaskStatus_options s = Some v) \<longleftrightarrow> s \<in> {''pending'', ''in_progress'', ''completed''}"
  by (auto simp: map_of_TaskStatus_options)

text \<open>
  C3, as amended. Validating a creation payload succeeds exactly when \<open>title\<close> is a
  string of length 1 to 200, \<open>description\<close>, when present, is a string, and \<open>status\<close>,
  when present, is one of \<open>pending\<close>, \<open>in_progress\<close>, \<open>completed\<close>. On success the
  result carries the title and description as given and always has a status, which is
  \<open>pending\<close> when the payload had none. On failure the error has an issue for every
  field that violates its rule, not only for the first.
\<close>

theorem createTaskSchema_validation:
  "(parse createTaskSchema (JObj obj) = Inr r \<longleftrightarrow>
      obj ''title'' = Some (JStr (create_title r))
      \<and> 1 \<le> length (create_title r) \<and> length (create_title r) \<le> 200
      \<and> obj ''description'' = map_option JStr (create_description r)
      \<and> ((obj ''status'' = None \<and> create_status r = Some pending)
         \<or> (\<exists>s v. obj ''status'' = Some (JStr s) \<and> map_of TaskStatus_options s = Some v
                   \<and> create_status r = Some v)))
   \<and> ((\<exists>r. parse createTaskSchema (JObj obj) = Inr r) \<longleftrightarrow>
      (\<exists>t. obj ''title'' = Some (JStr t) \<and> 1 \<le> length t \<and> length t \<le> 200)
      \<and> (obj ''description'' = None \<or> (\<exists>d. obj ''description'' = Some (JStr d)))
      \<and> (obj ''status'' = None
         \<or> (\<exists>s. obj ''status'' = Some (JStr s) \<and> s \<in> {''pending'', ''in_progress'', ''completed''})))
   \<and> ((\<forall>r. parse createTaskSchema (JObj obj) \<noteq> Inr r) \<longrightarrow>
      (\<exists>issues. parse createTaskSchema (JObj obj) = Inl (ZodError issues)
         \<and> (\<not> (\<exists>t. obj ''title'' = Some (JStr t) \<and> 1 \<le> length t \<and> length t \<le> 200) \<longrightarrow>
              (\<exists>i \<in> set issues. path i = [Key ''title'']))
         \<and> (\<not> (obj ''description'' = None \<or> (\<exists>d. obj ''description'' = Some (JStr d))) \<longrightarrow>
              (\<exists>i \<in> set issues. path i = [Key ''description'']))
         \<and> (\<not> (obj ''status'' = None
                \<or> (\<exists>s. obj ''status'' = Some (JStr s) \<and> s \<in> {''pending'', ''in_progress'', ''completed''})) \<longrightarrow>
              (\<exists>i \<in> set issues. path i = [Key ''status'']))))"
  (is "?A \<and> ?B \<and> ?C")
proof -
  have A: "\<And>r. parse createTaskSchema (JObj obj) = Inr r \<longleftrightarrow>
      obj ''title'' = Some (JStr (create_title r))
      \<and> 1 \<le> length (create_title r) \<and> length (create_title r) \<le> 200
      \<and> obj ''description'' = map_option JStr (create_description r)
      \<and> ((obj ''status'' = None \<and> create_status r = Some pending)
         \<or> (\<exists>s v. obj ''status'' = Some (JStr s) \<and> map_of TaskStatus_options s = Some v
                   \<and> create_status r = Some v))"
    unfolding parse_createTaskSchema_success title_field_valid optional_string_field_valid
      default_status_field_valid
    by blast
  have B: ?B
  proof
    assume "\<exists>r. parse createTaskSchema (JObj obj) = Inr r"
    then obtain r where "parse createTaskSchema (JObj obj) = Inr r" ..
    then show "(\<exists>t. obj ''title'' = Some (JStr t) \<and> 1 \<le> length t \<and> length t \<le> 200)
      \<and> (obj ''description'' = None \<or> (\<exists>d. obj ''description'' = Some (JStr d)))
      \<and> (obj ''status'' = None
         \<or> (\<exists>s. obj ''status'' = Some (JStr s) \<and> s \<in> {''pending'', ''in_progress'', ''completed''}))"
      unfolding A status_literal [symmetric]
      by (cases "create_description r") auto
  next
    assume ok: "(\<exists>t. obj ''title'' = Some (JStr t) \<and> 1 \<le> length t \<and> length t \<le> 200)
      \<and> (obj ''description'' = None \<or> (\<exists>d. obj ''description'' = Some (JStr d)))
      \<and> (obj ''status'' = None
         \<or> (\<exists>s. obj ''status'' = Some (JStr s) \<and> s \<in> {''pending'', ''in_progress'', ''completed''}))"
    then obtain t where t: "obj ''title'' = Some (JStr t)" "1 \<le> length t" "length t \<le> 200"
      by blast
    from ok obtain d where d: "obj ''description'' = map_option JStr d"
      by (metis option.simps(8,9))
    from ok obtain st where st: "(obj ''status'' = None \<and> st = Some pending)
         \<or> (\<exists>s v. obj ''status'' = Some (JStr s) \<and> map_of TaskStatus_options s = Some v \<and> st = Some v)"
      unfolding status_literal [symmetric] by blast
    have "parse createTaskSchema (JObj obj) =
        Inr \<lparr>create_title = t, create_description = d, create_status = st\<rparr>"
      unfolding A using t d st by simp
    then show "\<exists>r. parse createTaskSchema (JObj obj) = Inr r" ..
  qed
  have C: ?C
  proof
    assume fails: "\<forall>r. parse createTaskSchema (JObj obj) \<noteq> Inr r"
    then obtain e where e: "parse createTaskSchema (JObj obj) = Inl e"
      by (cases "parse createTaskSchema (JObj obj)") auto
    note issues = parse_createTaskSchema_failure [OF e]
    show "\<exists>issues. parse createTaskSchema (JObj obj) = Inl (ZodError issues)
         \<and> (\<not> (\<exists>t. obj ''title'' = Some (JStr t) \<and> 1 \<le> length t \<and> length t \<le> 200) \<longrightarrow>
              (\<exists>i \<in> set issues. path i = [Key ''title'']))
         \<and> (\<not> (obj ''description'' = None \<or> (\<exists>d. obj ''description'' = Some (JStr d))) \<longrightarrow>
              (\<exists>i \<in> set issues. path i = [Key ''description'']))
         \<and> (\<not> (obj ''status'' = None
                \<or> (\<exists>s. obj ''status'' = Some (JStr s) \<and> s \<in> {''pending'', ''in_progress'', ''completed''})) \<longrightarrow>
              (\<exists>i \<in> set issues. path i = [Key ''status'']))"
      using e issues
        title_field_issue [of obj "''title''" "''Title is required''" "''Title too long''" "[]"]
        optional_string_field_issue [of obj "''description''" "[]"]
        default_status_field_issue [of obj "''status''" "[]"]
      by (intro exI [of _ "snd (field (z_string [Min 1 ''Title is required'', Max 200 ''Title too long'']) [] obj ''title'')
        @ snd (field (z_optional (z_string [])) [] obj ''description'')
        @ snd (field (z_default (JStr ''pending'') (z_optional (z_enum TaskStatus_options))) [] obj ''status'')"])
         (simp del: One_nat_def, blast)
  qed
  from A B C show ?thesis by blast
qed


theorem createTaskSchema_validation_witness:
  "parse createTaskSchema (JObj [''title'' \<mapsto> JStr ''Write tests'']) =
     Inr \<lparr>create_title = ''Write tests'', create_description = None, create_status = Some pending\<rparr>
   \<and> (\<exists>issues. parse createTaskSchema (JObj [''title'' \<mapsto> JStr [], ''status'' \<mapsto> JStr ''done'']) =
         Inl (ZodError issues)
       \<and> [Key ''title''] \<in> path ` set issues \<and> [Key ''status''] \<in> path ` set issues)"
proof -
  have accepted: "parse createTaskSchema (JObj [''title'' \<mapsto> JStr ''Write tests'']) =
     Inr \<lparr>create_title = ''Write tests'', create_description = None, create_status = Some pending\<rparr>"
    using createTaskSchema_validation
      [of "[''title'' \<mapsto> JStr ''Write tests'']"
          "\<lparr>create_title = ''Write tests'', create_description = None, create_status = Some pending\<rparr>"]
    by simp
  have "\<forall>r. parse createTaskSchema (JObj [''title'' \<mapsto> JStr [], ''status'' \<mapsto> JStr ''done'']) \<noteq> Inr r"
    using createTaskSchema_validation
      [THEN conjunct2, THEN conjunct1, of "[''title'' \<mapsto> JStr [], ''status'' \<mapsto> JStr ''done'']"]
    by simp
  then have rejected: "\<exists>issues. parse createTaskSchema (JObj [''title'' \<mapsto> JStr [], ''status'' \<mapsto> JStr ''done'']) =
         Inl (ZodError issues)
       \<and> [Key ''title''] \<in> path ` set issues \<and> [Key ''status''] \<in> path ` set issues"
    using createTaskSchema_validation
      [THEN conjunct2, THEN conjunct2, of "[''title'' \<mapsto> JStr [], ''status'' \<mapsto> JStr ''done'']"]
    by (simp add: image_iff) metis
  from accepted rejected show ?thesis by blast
qed

text \<open>
  The condition cannot do without the description: a payload with a valid title, no
  status and a description that is a number is rejected.
\<close>

theorem createTaskSchema_counterexample:
  "[''title'' \<mapsto> JStr ''Task'', ''description'' \<mapsto> JNum 5] ''title'' = Some (JStr ''Task'')
   \<and> 1 \<le> length ''Task'' \<and> length ''Task'' \<le> 200
   \<and> [''title'' \<mapsto> JStr ''Task'', ''description'' \<mapsto> JNum 5] ''status'' = None
   \<and> parse createTaskSchema (JObj [''title'' \<mapsto> JStr ''Task'', ''description'' \<mapsto> JNum 5]) =
       Inl (ZodError [\<lparr>path = [Key ''description''], message = ''Expected string, received number''\<rparr>])"
  by (simp add: parse_def createTaskSchema_def field_def z_optional_def z_default_def
      TaskStatus_options_def invalid_type_def)

subsection \<open>The update payload\<close>

lemma title_field_update:
  "field (z_optional (z_string [Min 1 a, Max 200 b])) p obj k =
     (case obj k of
        None \<Rightarrow> (Valid None, [])
      | Some (JStr s) \<Rightarrow>
          if length s < 1 then (Dirty (Some s), [\<lparr>path = p @ [Key k], message = a\<rparr>])
          else if length s > 200 then (Dirty (Some s), [\<lparr>path = p @ [Key k], message = b\<rparr>])
          else (Valid (Some s), [])
      | received \<Rightarrow> (Aborted, [invalid_type (p @ [Key k]) ''string'' received]))"
  by (auto simp: field_def z_optional_def split: option.splits json.splits)

lemma updateTaskObject_object:
  "updateTaskObject p (Some (JObj obj)) =
     (map_return
        (\<lambda>(t, d, s). \<lparr>update_title = t, update_description = d, update_status = s\<rparr>)
        (merge_return
           (fst (field (z_optional (z_string [Min 1 ''Title cannot be empty'', Max 200 ''Title too long''])) p obj ''title''))
           (merge_return
              (fst (field (z_optional (z_string [])) p obj ''description''))
              (fst (field (z_optional (z_enum TaskStatus_options)) p obj ''status'')))),
      snd (field (z_optional (z_string [Min 1 ''Title cannot be empty'', Max 200 ''Title too long''])) p obj ''title'')
      @ snd (field (z_optional (z_string [])) p obj ''description'')
      @ snd (field (z_optional (z_enum TaskStatus_options)) p obj ''status''))"
  by (simp add: updateTaskObject_def case_prod_beta del: One_nat_def)

lemma parse_updateTaskSchema:
  "parse updateTaskSchema (JObj obj) =
     (case updateTaskObject [] (Some (JObj obj)) of
        (Valid v, issues) \<Rightarrow>
          if update_keys v \<noteq> [] then Inr v
          else Inl (ZodError (issues @ [\<lparr>path = [], message = ''At least one field must be provided for update''\<rparr>]))
      | (Dirty v, issues) \<Rightarrow>
          if update_keys v \<noteq> [] then Inl (ZodError issues)
          else Inl (ZodError (issues @ [\<lparr>path = [], message = ''At least one field must be provided for update''\<rparr>]))
      | (Aborted, issues) \<Rightarrow> Inl (ZodError issues))"
  by (auto simp: parse_def updateTaskSchema_def z_refine_def split: prod.splits parse_return.splits)

lemma update_keys_empty:
  "update_keys v = [] \<longleftrightarrow> update_title v = None \<and> update_description v = None \<and> update_status v = None"
  by (simp add: update_keys_def)


lemma title_field_update_valid:
  "fst (field (z_optional (z_string [Min 1 a, Max 200 b])) p obj k) = Valid x \<longleftrightarrow>
     obj k = map_option JStr x \<and> (\<forall>t. x = Some t \<longrightarrow> 1 \<le> length t \<and> length t \<le> 200)"
  unfolding title_field_update
  by (cases x) (auto simp: Suc_le_eq split: option.splits json.splits)

lemma title_field_update_dirty:
  "fst (field (z_optional (z_string [Min 1 a, Max 200 b])) p obj k) = Dirty x \<Longrightarrow> x \<noteq> None"
  unfolding title_field_update
  by (auto split: option.splits json.splits if_splits)

lemma title_field_update_path:
  "i \<in> set (snd (field (z_optional (z_string [Min 1 a, Max 200 b])) p obj k)) \<Longrightarrow> path i = p @ [Key k]"
  unfolding title_field_update
  by (auto simp: invalid_type_def split: option.splits json.splits if_splits)

lemma optional_string_field_not_dirty:
  "fst (field (z_optional (z_string [])) p obj k) \<noteq> Dirty x"
  by (auto simp: optional_string_field split: option.splits json.splits)

lemma optional_string_field_path:
  "i \<in> set (snd (field (z_optional (z_string [])) p obj k)) \<Longrightarrow> path i = p @ [Key k]"
  by (auto simp: optional_string_field invalid_type_def split: option.splits json.splits)

lemma optional_status_field_not_dirty:
  "fst (field (z_optional (z_enum TaskStatus_options)) p obj k) \<noteq> Dirty x"
  by (auto simp: optional_status_field split: option.splits json.splits)

lemma optional_status_field_path:
  "i \<in> set (snd (field (z_optional (z_enum TaskStatus_options)) p obj k)) \<Longrightarrow> path i = p @ [Key k]"
  by (auto simp: optional_status_field invalid_type_def split: option.splits json.splits)

lemma parse_updateTaskSchema_success:
  "parse updateTaskSchema (JObj obj) = Inr r \<longleftrightarrow>
     fst (field (z_optional (z_string [Min 1 ''Title cannot be empty'', Max 200 ''Title too long''])) [] obj ''title'') = Valid (update_title r)
     \<and> fst (field (z_optional (z_string [])) [] obj ''description'') = Valid (update_description r)
     \<and> fst (field (z_optional (z_enum TaskStatus_options)) [] obj ''status'') = Valid (update_status r)
     \<and> update_keys r \<noteq> []"
  (is "_ \<longleftrightarrow> ?t = _ \<and> ?d = _ \<and> ?s = _ \<and> _")
  unfolding parse_updateTaskSchema updateTaskObject_object
  by (cases ?t; cases ?d; cases ?s; cases r) (auto simp del: One_nat_def)

lemma parse_updateTaskSchema_empty:
  "obj ''title'' = None \<Longrightarrow> obj ''description'' = None \<Longrightarrow> obj ''status'' = None \<Longrightarrow>
     parse updateTaskSchema (JObj obj) =
       Inl (ZodError [\<lparr>path = [], message = ''At least one field must be provided for update''\<rparr>])"
  unfolding parse_updateTaskSchema updateTaskObject_object
  by (simp add: title_field_update optional_string_field optional_status_field update_keys_def
      del: One_nat_def)

lemma parse_updateTaskSchema_dedicated:
  assumes "parse updateTaskSchema (JObj obj) = Inl (ZodError issues)"
    and "\<lparr>path = [], message = ''At least one field must be provided for update''\<rparr> \<in> set issues"
  shows "obj ''title'' = None \<and> obj ''description'' = None \<and> obj ''status'' = None"
proof -
  let ?t = "field (z_optional (z_string [Min 1 ''Title cannot be empty'', Max 200 ''Title too long''])) [] obj ''title''"
  let ?d = "field (z_optional (z_string [])) [] obj ''description''"
  let ?s = "field (z_optional (z_enum TaskStatus_options)) [] obj ''status''"
  let ?ded = "\<lparr>path = [], message = ''At least one field must be provided for update''\<rparr>"
  have fields: "?ded \<notin> set (snd ?t @ snd ?d @ snd ?s)"
    using title_field_update_path [of ?ded _ _ "[]" obj "''title''"]
      optional_string_field_path [of ?ded "[]" obj "''description''"]
      optional_status_field_path [of ?ded "[]" obj "''status''"]
    by auto
  obtain st where st: "fst (updateTaskObject [] (Some (JObj obj))) = st" by simp
  have snd_eq: "snd (updateTaskObject [] (Some (JObj obj))) = snd ?t @ snd ?d @ snd ?s"
    by (simp add: updateTaskObject_object del: One_nat_def)
  from assms fields snd_eq obtain v where
    v: "fst (updateTaskObject [] (Some (JObj obj))) = Valid v \<or> fst (updateTaskObject [] (Some (JObj obj))) = Dirty v"
    and keys: "update_keys v = []"
    unfolding parse_updateTaskSchema
    by (cases "updateTaskObject [] (Some (JObj obj))"; cases "fst (updateTaskObject [] (Some (JObj obj)))")
       (auto split: if_splits)
  from keys have none: "update_title v = None" "update_description v = None" "update_status v = None"
    by (simp_all add: update_keys_empty)
  from v have "fst ?t = Valid None \<and> fst ?d = Valid None \<and> fst ?s = Valid None"
    using none title_field_update_dirty [of "''Title cannot be empty''" "''Title too long''" "[]" obj "''title''" None]
      optional_string_field_not_dirty [of "[]" obj "''description''"]
      optional_status_field_not_dirty [of "[]" obj "''status''"]
    unfolding updateTaskObject_object
    by (cases "fst ?t"; cases "fst ?d"; cases "fst ?s"; cases v) (auto simp del: One_nat_def)
  then show ?thesis
    by (simp add: title_field_update_valid optional_string_field_valid optional_status_field_valid
        del: One_nat_def)
qed


text \<open>
  C4. Validating an update payload fails with the issue ``At least one field must be
  provided for update'', which names no field, exactly when the payload has none of
  \<open>title\<close>, \<open>description\<close>, \<open>status\<close>; the empty object is such a payload and its
  error holds that issue alone. A payload with at least one of the three fields, each
  present field meeting its own rule (a title that is a string of length 1 to 200, a
  description that is a string, a status among the three literals), succeeds. On
  success a field absent from the payload is absent from the result: no default is
  filled in.
\<close>

theorem updateTaskSchema_validation:
  "((\<exists>issues. parse updateTaskSchema (JObj obj) = Inl (ZodError issues)
        \<and> \<lparr>path = [], message = ''At least one field must be provided for update''\<rparr> \<in> set issues)
      \<longleftrightarrow> obj ''title'' = None \<and> obj ''description'' = None \<and> obj ''status'' = None)
   \<and> (obj ''title'' = None \<and> obj ''description'' = None \<and> obj ''status'' = None \<longrightarrow>
        parse updateTaskSchema (JObj obj) =
          Inl (ZodError [\<lparr>path = [], message = ''At least one field must be provided for update''\<rparr>]))
   \<and> ((obj ''title'' \<noteq> None \<or> obj ''description'' \<noteq> None \<or> obj ''status'' \<noteq> None)
        \<and> (obj ''title'' = None \<or> (\<exists>t. obj ''title'' = Some (JStr t) \<and> 1 \<le> length t \<and> length t \<le> 200))
        \<and> (obj ''description'' = None \<or> (\<exists>d. obj ''description'' = Some (JStr d)))
        \<and> (obj ''status'' = None
           \<or> (\<exists>s. obj ''status'' = Some (JStr s) \<and> s \<in> {''pending'', ''in_progress'', ''completed''}))
        \<longrightarrow> (\<exists>r. parse updateTaskSchema (JObj obj) = Inr r))
   \<and> (\<forall>r. parse updateTaskSchema (JObj obj) = Inr r \<longrightarrow>
        obj ''title'' = map_option JStr (update_title r)
        \<and> obj ''description'' = map_option JStr (update_description r)
        \<and> (update_title r = None \<longleftrightarrow> obj ''title'' = None)
        \<and> (update_description r = None \<longleftrightarrow> obj ''description'' = None)
        \<and> (update_status r = None \<longleftrightarrow> obj ''status'' = None)
        \<and> (\<forall>v. update_status r = Some v \<longrightarrow>
              (\<exists>s. obj ''status'' = Some (JStr s) \<and> map_of TaskStatus_options s = Some v)))"
  (is "?A \<and> ?B \<and> ?C \<and> ?D")
proof -
  have B: ?B
    using parse_updateTaskSchema_empty [of obj] by blast
  have A: ?A
  proof
    assume "\<exists>issues. parse updateTaskSchema (JObj obj) = Inl (ZodError issues)
        \<and> \<lparr>path = [], message = ''At least one field must be provided for update''\<rparr> \<in> set issues"
    then show "obj ''title'' = None \<and> obj ''description'' = None \<and> obj ''status'' = None"
      using parse_updateTaskSchema_dedicated [of obj] by blast
  next
    assume "obj ''title'' = None \<and> obj ''description'' = None \<and> obj ''status'' = None"
    with B have "parse updateTaskSchema (JObj obj) =
          Inl (ZodError [\<lparr>path = [], message = ''At least one field must be provided for update''\<rparr>])"
      by blast
    then show "\<exists>issues. parse updateTaskSchema (JObj obj) = Inl (ZodError issues)
        \<and> \<lparr>path = [], message = ''At least one field must be provided for update''\<rparr> \<in> set issues"
      by simp
  qed
  have success: "\<And>r. parse updateTaskSchema (JObj obj) = Inr r \<longleftrightarrow>
      (obj ''title'' = map_option JStr (update_title r)
         \<and> (\<forall>t. update_title r = Some t \<longrightarrow> 1 \<le> length t \<and> length t \<le> 200))
      \<and> obj ''description'' = map_option JStr (update_description r)
      \<and> ((obj ''status'' = None \<and> update_status r = None)
         \<or> (\<exists>s v. obj ''status'' = Some (JStr s) \<and> map_of TaskStatus_options s = Some v
                   \<and> update_status r = Some v))
      \<and> update_keys r \<noteq> []"
    unfolding parse_updateTaskSchema_success title_field_update_valid optional_string_field_valid
      optional_status_field_valid
    by blast
  have C: ?C
  proof
    assume ok: "(obj ''title'' \<noteq> None \<or> obj ''description'' \<noteq> None \<or> obj ''status'' \<noteq> None)
        \<and> (obj ''title'' = None \<or> (\<exists>t. obj ''title'' = Some (JStr t) \<and> 1 \<le> length t \<and> length t \<le> 200))
        \<and> (obj ''description'' = None \<or> (\<exists>d. obj ''description'' = Some (JStr d)))
        \<and> (obj ''status'' = None
           \<or> (\<exists>s. obj ''status'' = Some (JStr s) \<and> s \<in> {''pending'', ''in_progress'', ''completed''}))"
    have "\<exists>t. obj ''title'' = map_option JStr t
        \<and> (\<forall>x. t = Some x \<longrightarrow> 1 \<le> length x \<and> length x \<le> 200)"
    proof (cases "obj ''title''")
      case None
      then show ?thesis by (intro exI [of _ None]) simp
    next
      case (Some v)
      with ok obtain x where "v = JStr x" "1 \<le> length x" "length x \<le> 200" by auto
      with Some show ?thesis by (intro exI [of _ "Some x"]) simp
    qed
    then obtain t where t: "obj ''title'' = map_option JStr t"
      "\<forall>x. t = Some x \<longrightarrow> 1 \<le> length x \<and> length x \<le> 200"
      by blast
    from ok obtain d where d: "obj ''description'' = map_option JStr d"
      by (metis option.simps(8,9))
    from ok obtain st where st: "(obj ''status'' = None \<and> st = None)
         \<or> (\<exists>s v. obj ''status'' = Some (JStr s) \<and> map_of TaskStatus_options s = Some v \<and> st = Some v)"
      unfolding status_literal [symmetric] by blast
    from ok t d st have keys: "update_keys \<lparr>update_title = t, update_description = d, update_status = st\<rparr> \<noteq> []"
      by (cases t; cases d; cases st) (auto simp: update_keys_def)
    have "parse updateTaskSchema (JObj obj) =
        Inr \<lparr>update_title = t, update_description = d, update_status = st\<rparr>"
      unfolding success using t d st keys by simp
    then show "\<exists>r. parse updateTaskSchema (JObj obj) = Inr r" ..
  qed
  have D: ?D
  proof (intro allI impI)
    fix r
    assume "parse updateTaskSchema (JObj obj) = Inr r"
    then have r: "obj ''title'' = map_option JStr (update_title r)"
      "obj ''description'' = map_option JStr (update_description r)"
      "(obj ''status'' = None \<and> update_status r = None)
         \<or> (\<exists>s v. obj ''status'' = Some (JStr s) \<and> map_of TaskStatus_options s = Some v
                   \<and> update_status r = Some v)"
      unfolding success by simp_all
    show "obj ''title'' = map_option JStr (update_title r)
        \<and> obj ''description'' = map_option JStr (update_description r)
        \<and> (update_title r = None \<longleftrightarrow> obj ''title'' = None)
        \<and> (update_description r = None \<longleftrightarrow> obj ''description'' = None)
        \<and> (update_status r = None \<longleftrightarrow> obj ''status'' = None)
        \<and> (\<forall>v. update_status r = Some v \<longrightarrow>
              (\<exists>s. obj ''status'' = Some (JStr s) \<and> map_of TaskStatus_options s = Some v))"
      using r by (cases "update_title r"; cases "update_description r") auto
  qed
  from A B C D show ?thesis by blast
qed

theorem updateTaskSchema_validation_witness:
  "parse updateTaskSchema (JObj Map.empty) =
     Inl (ZodError [\<lparr>path = [], message = ''At least one field must be provided for update''\<rparr>])
   \<and> (\<exists>r. parse updateTaskSchema (JObj [''status'' \<mapsto> JStr ''completed'']) = Inr r
        \<and> update_title r = None \<and> update_description r = None \<and> update_status r = Some completed)"
proof -
  have rejected: "parse updateTaskSchema (JObj Map.empty) =
     Inl (ZodError [\<lparr>path = [], message = ''At least one field must be provided for update''\<rparr>])"
    using updateTaskSchema_validation [THEN conjunct2, THEN conjunct1, of Map.empty] by simp
  obtain r where r: "parse updateTaskSchema (JObj [''status'' \<mapsto> JStr ''completed'']) = Inr r"
    using updateTaskSchema_validation
      [THEN conjunct2, THEN conjunct2, THEN conjunct1, of "[''status'' \<mapsto> JStr ''completed'']"]
    by auto
  then have "update_title r = None \<and> update_description r = None \<and> update_status r = Some completed"
    using updateTaskSchema_validation
      [THEN conjunct2, THEN conjunct2, THEN conjunct2, of "[''status'' \<mapsto> JStr ''completed'']"]
    by (cases "update_status r") (auto simp: map_of_TaskStatus_options)
  with rejected r show ?thesis by blast
qed

subsection \<open>The list query\<close>

















section \<open>The task service\<close>

subsection \<open>The filter of \<open>listTasks\<close>\<close>








subsection \<open>Pagination\<close>

lemma findMany_window:
  "0 \<le> l \<Longrightarrow> 0 \<le> f \<Longrightarrow>
     prisma_task_findMany db w (Num l) (Num f) =
       Inr (take (nat l) (drop (nat f) (order_by_createdAt_desc (filter (matches w) (tasks db)))))"
  by (simp add: prisma_task_findMany_def)

lemma listTasks_valid:
  assumes "query_limit q = Some (Num l)" "0 \<le> l" "query_offset q = Some (Num f)" "0 \<le> f"
  shows "listTasks q db =
     Inr \<lparr>result_data =
            take (nat l) (drop (nat f)
              (order_by_createdAt_desc (filter (matches (build_where q)) (tasks db)))),
          result_pagination =
            \<lparr>page_total = Num (int (length (filter (matches (build_where q)) (tasks db)))),
             page_limit = Num l,
             page_offset = Num f,
             page_hasMore = (f + l < int (length (filter (matches (build_where q)) (tasks db))))\<rparr>\<rparr>"
  using assms by (simp add: listTasks_def Let_def findMany_window prisma_task_count_def)

lemma set_order_by_createdAt_desc: "set (order_by_createdAt_desc ts) = set ts"
  by (simp add: order_by_createdAt_desc_def)

lemma page_subset:
  "set (take n (drop m (order_by_createdAt_desc (filter P ts)))) \<subseteq> {t \<in> set ts. P t}"
proof -
  have "set (take n (drop m (order_by_createdAt_desc (filter P ts))))
      \<subseteq> set (order_by_createdAt_desc (filter P ts))"
    using set_take_subset set_drop_subset by (rule subset_trans)
  then show ?thesis by (auto simp: set_order_by_createdAt_desc)
qed

text \<open>
  C1. For a query with \<open>limit\<close> from 1 to 100 and \<open>offset\<close> at least 0, and for every
  store, \<open>listTasks\<close> returns a page of at most \<open>limit\<close> tasks, all of which match
  the filter; \<open>total\<close> is the number of stored tasks matching the filter, whatever the
  page, and \<open>hasMore\<close> is \<open>offset + limit < total\<close>.
\<close>

theorem listTasks_pagination:
  assumes "query_limit q = Some (Num l)" and "1 \<le> l" and "l \<le> 100"
    and "query_offset q = Some (Num f)" and "0 \<le> f"
  shows "\<exists>r. listTasks q db = Inr r
     \<and> int (length (result_data r)) \<le> l
     \<and> set (result_data r) \<subseteq> {t \<in> set (tasks db). matches (build_where q) t}
     \<and> page_total (result_pagination r) =
         Num (int (length (filter (matches (build_where q)) (tasks db))))
     \<and> page_limit (result_pagination r) = Num l
     \<and> page_offset (result_pagination r) = Num f
     \<and> page_hasMore (result_pagination r) =
         (f + l < int (length (filter (matches (build_where q)) (tasks db))))"
proof -
  from assms have l: "0 \<le> l" by simp
  note r = listTasks_valid [OF assms(1) l assms(4) assms(5), of db]
  have "int (length (take (nat l) (drop (nat f)
      (order_by_createdAt_desc (filter (matches (build_where q)) (tasks db)))))) \<le> l"
    using l by simp
  with r page_subset [of "nat l" "nat f" "matches (build_where q)" "tasks db"]
  show ?thesis by simp
qed

theorem listTasks_pagination_witness:
  "\<exists>r. listTasks \<lparr>query_status = Some pending, query_search = None,
                   query_limit = Some (Num 1), query_offset = Some (Num 0)\<rparr> example_store = Inr r
     \<and> int (length (result_data r)) \<le> 1
     \<and> page_total (result_pagination r) = Num 2
     \<and> page_hasMore (result_pagination r) = True"
proof -
  let ?q = "\<lparr>query_status = Some pending, query_search = None,
                   query_limit = Some (Num 1), query_offset = Some (Num 0)\<rparr>"
  have total: "length (filter (matches (build_where ?q)) (tasks example_store)) = 2"
    by (simp add: example_store_def matches_def build_where_def)
  show ?thesis
    using listTasks_pagination [of ?q 1 0 example_store] total by auto
qed




subsection \<open>Lookups by id\<close>


lemma find_appended: "(\<forall>t \<in> set ts. \<not> P t) \<Longrightarrow> P x \<Longrightarrow> find P (ts @ [x]) = Some x"
  by (induction ts) auto



text \<open>
  The id sequence stays ahead of every stored id: each operation of the service keeps
  this property, so every reachable store has it.
\<close>

lemma ids_below_next_create:
  "\<forall>t \<in> set (tasks db). task_id t < next_id db \<Longrightarrow> createTask input db = Inr (created, db') \<Longrightarrow>
     \<forall>t \<in> set (tasks db'). task_id t < next_id db'"
  by (fastforce simp: createTask_def prisma_task_create_def Let_def)

lemma ids_below_next_update:
  "\<forall>t \<in> set (tasks db). task_id t < next_id db \<Longrightarrow> updateTask i data db = Inr (updated, db') \<Longrightarrow>
     \<forall>t \<in> set (tasks db'). task_id t < next_id db'"
  by (auto simp: updateTask_def prisma_task_update_def apply_update_def split: option.splits)

lemma ids_below_next_delete:
  "\<forall>t \<in> set (tasks db). task_id t < next_id db \<Longrightarrow> deleteTask i db = Inr (deleted, db') \<Longrightarrow>
     \<forall>t \<in> set (tasks db'). task_id t < next_id db'"
  by (auto simp: deleteTask_def prisma_task_delete_def split: option.splits)

lemma reachable_ids_below_next:
  "reachable db \<Longrightarrow> \<forall>t \<in> set (tasks db). task_id t < next_id db"
proof (induction rule: reachable.induct)
  case (empty time)
  show ?case by simp
next
  case (created db input t db')
  then show ?case using ids_below_next_create by blast
next
  case (updated db i data t db')
  then show ?case using ids_below_next_update by blast
next
  case (deleted db i t db')
  then show ?case using ids_below_next_delete by blast
next
  case (later db elapsed)
  then show ?case by simp
qed

text \<open>
  C8. In a store whose id sequence is ahead of the stored ids, \<open>createTask\<close> succeeds for
  every input, and \<open>getTaskById\<close> on the id of the created task returns that task; its
  title, description and status are the input's, the status being \<open>pending\<close> when the
  input has none. For an input that came out of \<open>createTaskSchema\<close> the status is set,
  and it is \<open>pending\<close> when the payload had no status.
\<close>

theorem createTask_getTaskById:
  assumes "\<forall>t \<in> set (tasks db). task_id t < next_id db"
  shows "\<exists>created db'. createTask input db = Inr (created, db')
     \<and> getTaskById (task_id created) db' = Inr (Some created)
     \<and> task_title created = create_title input
     \<and> task_description created = create_description input
     \<and> task_status created = (case create_status input of None \<Rightarrow> pending | Some s \<Rightarrow> s)
     \<and> (\<forall>obj. parse createTaskSchema (JObj obj) = Inr input \<longrightarrow>
          create_status input = Some (task_status created)
          \<and> (obj ''status'' = None \<longrightarrow> task_status created = pending))"
proof -
  let ?t = "\<lparr>task_id = next_id db,
             task_title = create_title input,
             task_description = create_description input,
             task_status = (case create_status input of None \<Rightarrow> pending | Some s \<Rightarrow> s),
             task_createdAt = now db,
             task_updatedAt = now db\<rparr>"
  let ?db = "db\<lparr>tasks := tasks db @ [?t], next_id := next_id db + 1, now := now db + 1\<rparr>"
  have created: "createTask input db = Inr (?t, ?db)"
    by (simp add: createTask_def prisma_task_create_def Let_def)
  from assms have "\<forall>t \<in> set (tasks db). \<not> task_id t = next_id db" by auto
  then have "find (\<lambda>t. task_id t = next_id db) (tasks db @ [?t]) = Some ?t"
    by (rule find_appended) simp
  then have found: "getTaskById (task_id ?t) ?db = Inr (Some ?t)"
    by (simp add: getTaskById_def prisma_task_findUnique_def)
  have validated: "create_status input = Some (task_status ?t)
      \<and> (obj ''status'' = None \<longrightarrow> task_status ?t = pending)"
    if "parse createTaskSchema (JObj obj) = Inr input" for obj
    using that unfolding parse_createTaskSchema_success default_status_field_valid by auto
  from created found validated show ?thesis
    by (intro exI [of _ ?t] exI [of _ ?db]) simp
qed

theorem createTask_getTaskById_witness:
  "\<exists>created db'. createTask
        \<lparr>create_title = ''Write docs'', create_description = None, create_status = None\<rparr>
        example_store = Inr (created, db')
     \<and> getTaskById (task_id created) db' = Inr (Some created)
     \<and> task_title created = ''Write docs''
     \<and> task_description created = None
     \<and> task_status created = pending"
proof -
  have "\<forall>t \<in> set (tasks example_store). task_id t < next_id example_store"
    by (simp add: example_store_def)
  from createTask_getTaskById [OF this,
      of "\<lparr>create_title = ''Write docs'', create_description = None, create_status = None\<rparr>"]
  show ?thesis by auto
qed

section \<open>The request handlers\<close>

text \<open>
  What \<open>parseInt\<close> reads: a run of digits is read as its decimal value, whatever follows
  it; a string that starts with none of white space, sign or digit gives \<open>NaN\<close>.
\<close>

lemma digit_not_white_space: "is_digit c \<Longrightarrow> \<not> is_white_space c"
  by (auto simp: is_digit_def is_white_space_def)

lemma digit_not_sign: "is_digit c \<Longrightarrow> c \<noteq> CHR ''+'' \<and> c \<noteq> CHR ''-''"
  by (auto simp: is_digit_def)

lemma parseInt_leading_digits:
  assumes "ds \<noteq> []" and "list_all is_digit ds" and "rest = [] \<or> \<not> is_digit (hd rest)"
  shows "parseInt (ds @ rest) = Num (digits_value ds)"
proof -
  from assms obtain d ds' where ds: "ds = d # ds'" and d: "is_digit d"
    by (cases ds) auto
  from assms(2) have all: "\<forall>c \<in> set ds. is_digit c"
    by (simp add: list_all_iff)
  have "takeWhile is_digit (ds @ rest) = ds"
  proof (cases rest)
    case Nil
    with all show ?thesis by simp
  next
    case (Cons r rs)
    with assms(3) have "\<not> is_digit r" by simp
    with all Cons show ?thesis by (simp add: takeWhile_append2)
  qed
  with ds d digit_not_white_space [OF d] digit_not_sign [OF d] show ?thesis
    by (simp add: parseInt_def)
qed

lemma parseInt_numeral:
  "ds \<noteq> [] \<Longrightarrow> list_all is_digit ds \<Longrightarrow> parseInt ds = Num (digits_value ds)"
  using parseInt_leading_digits [of ds "[]"] by simp

lemma parseInt_no_digit:
  "s = [] \<or> \<not> is_white_space (hd s) \<and> hd s \<noteq> CHR ''+'' \<and> hd s \<noteq> CHR ''-'' \<and> \<not> is_digit (hd s) \<Longrightarrow>
     parseInt s = NaN"
  by (cases s) (auto simp: parseInt_def)

text \<open>
  C9, as amended. When \<open>parseInt\<close> reads no integer at the start of the id path parameter
  (the result is \<open>NaN\<close>), each of \<open>getById\<close>, \<open>update\<close> and \<open>delete\<close> responds 400 with
  \<open>{success: false, error: 'Invalid task ID'}\<close> whatever the service is, so without
  calling it, and leaves the store as it was. When \<open>parseInt\<close> reads the integer \<open>i\<close>, the
  handler calls the service with \<open>i\<close> and its answer is never that response.
\<close>

theorem controller_invalid_id:
  "(parseInt params_id = NaN \<longrightarrow>
      controller_getById service params_id db =
        (Sent \<lparr>res_status = 400,
               res_json = \<lparr>body_success = False, body_error = Some ''Invalid task ID'',
                           body_message = None, body_details = None, body_data = None,
                           body_pagination = None\<rparr>\<rparr>, db)
      \<and> controller_update service params_id body db =
        (Sent \<lparr>res_status = 400,
               res_json = \<lparr>body_success = False, body_error = Some ''Invalid task ID'',
                           body_message = None, body_details = None, body_data = None,
                           body_pagination = None\<rparr>\<rparr>, db)
      \<and> controller_delete service params_id db =
        (Sent \<lparr>res_status = 400,
               res_json = \<lparr>body_success = False, body_error = Some ''Invalid task ID'',
                           body_message = None, body_details = None, body_data = None,
                           body_pagination = None\<rparr>\<rparr>, db))
   \<and> (\<forall>i. parseInt params_id = Num i \<longrightarrow>
        controller_getById service params_id db =
          (case service_getTaskById service i db of
             Inl e \<Rightarrow> (Next e, db)
           | Inr None \<Rightarrow> (Sent \<lparr>res_status = 404, res_json = failure ''Task not found''\<rparr>, db)
           | Inr (Some task) \<Rightarrow>
               (Sent \<lparr>res_status = 200, res_json = success\<lparr>body_data := Some (one_task task)\<rparr>\<rparr>, db))
        \<and> controller_update service params_id body db =
          (case parse updateTaskSchema body of
             Inl e \<Rightarrow> (Next e, db)
           | Inr validatedData \<Rightarrow>
               (case service_updateTask service i validatedData db of
                  Inl e \<Rightarrow> (Next e, db)
                | Inr (task, db') \<Rightarrow>
                    (Sent \<lparr>res_status = 200, res_json = success\<lparr>body_data := Some (one_task task)\<rparr>\<rparr>, db')))
        \<and> controller_delete service params_id db =
          (case service_deleteTask service i db of
             Inl e \<Rightarrow> (Next e, db)
           | Inr (task, db') \<Rightarrow>
               (Sent \<lparr>res_status = 200,
                      res_json = success\<lparr>body_message := Some ''Task deleted successfully''\<rparr>\<rparr>, db'))
        \<and> fst (controller_getById service params_id db) \<noteq> Sent invalid_task_id
        \<and> fst (controller_update service params_id body db) \<noteq> Sent invalid_task_id
        \<and> fst (controller_delete service params_id db) \<noteq> Sent invalid_task_id)"
  by (auto simp: controller_getById_def controller_update_def controller_delete_def
      invalid_task_id_def failure_def success_def split: sum.splits option.splits)

theorem controller_invalid_id_witness:
  "controller_getById taskService ''abc'' example_store =
        (Sent \<lparr>res_status = 400,
               res_json = \<lparr>body_success = False, body_error = Some ''Invalid task ID'',
                           body_message = None, body_details = None, body_data = None,
                           body_pagination = None\<rparr>\<rparr>, example_store)
   \<and> controller_delete taskService ''abc'' example_store =
        (Sent \<lparr>res_status = 400,
               res_json = \<lparr>body_success = False, body_error = Some ''Invalid task ID'',
                           body_message = None, body_details = None, body_data = None,
                           body_pagination = None\<rparr>\<rparr>, example_store)
   \<and> fst (controller_getById taskService ''12'' example_store) \<noteq> Sent invalid_task_id"
proof -
  have nan: "parseInt ''abc'' = NaN" by code_simp
  have twelve: "parseInt ''12'' = Num 12" by code_simp
  from controller_invalid_id [THEN conjunct1, THEN mp, OF nan, of taskService example_store]
    controller_invalid_id [THEN conjunct2, THEN spec, THEN mp, OF twelve, of taskService example_store]
  show ?thesis by blast
qed

text \<open>
  Not every id that is no integer is answered with 400: \<open>12abc\<close> is not a numeral, and
  \<open>getById\<close> looks up task 12 and returns it.
\<close>

theorem controller_invalid_id_counterexample:
  "\<not> list_all is_digit ''12abc''
   \<and> controller_getById taskService ''12abc'' example_store =
       (Sent \<lparr>res_status = 200,
              res_json = \<lparr>body_success = True, body_error = None, body_message = None,
                          body_details = None,
                          body_data = Some (one_task
                            \<lparr>task_id = 12, task_title = ''Deploy'', task_description = None,
                             task_status = pending, task_createdAt = 30, task_updatedAt = 30\<rparr>),
                          body_pagination = None\<rparr>\<rparr>, example_store)"
  by code_simp

end
